theory Spec2Isabelle
  imports Main
begin

text \<open>
  The booking client of MedReserve: the API client, the booking page, the patient home page,
  the doctor directory, the calendar export and the toast notifications. An asynchronous
  handler is split at its \<open>await\<close>: the part that runs at once, and the part that runs when
  the call settles, given the outcome of the call. React state is a record, a setter call a
  record update.
\<close>

section \<open>JavaScript values the client computes with\<close>

text \<open>
  A JavaScript string is modelled as a list of 8-bit code units (\<open>string\<close>), that is, the
  strings whose code units lie in the Latin-1 range. \<open>String.prototype.trim\<close> strips the
  code units that ECMAScript classes as WhiteSpace or LineTerminator; in this range they are
  TAB, LF, VT, FF, CR, SPACE and NBSP.
\<close>

definition isWhiteSpace :: "char \<Rightarrow> bool" where
  "isWhiteSpace c =
     (c = CHR 0x09 \<or> c = CHR 0x0A \<or> c = CHR 0x0B \<or> c = CHR 0x0C \<or> c = CHR 0x0D
      \<or> c = CHR 0x20 \<or> c = CHR 0xA0)"

definition trim :: "string \<Rightarrow> string" where
  "trim s = rev (dropWhile isWhiteSpace (rev (dropWhile isWhiteSpace s)))"

text \<open>
  Decimal rendering of an integer, as a template literal renders an integral number (of
  magnitude below 1e21; identifiers and status codes are far below).
\<close>

definition digit_char :: "nat \<Rightarrow> char" where
  "digit_char d = ''0123456789'' ! (d mod 10)"

fun digits :: "nat \<Rightarrow> string" where
  "digits n = (if n < 10 then [digit_char n] else digits (n div 10) @ [digit_char (n mod 10)])"

declare digits.simps [simp del]

definition show_int :: "int \<Rightarrow> string" where
  "show_int i = (if i < 0 then CHR ''-'' # digits (nat (- i)) else digits (nat i))"

text \<open>
  The numbers that reach the code are integer identifiers, or \<open>NaN\<close> when \<open>Number\<close> is
  applied to a route parameter that is not numeric.
\<close>

datatype number = NaN | Num int

fun number_text :: "number \<Rightarrow> string" where
  "number_text NaN = ''NaN''"
| "number_text (Num i) = show_int i"

text \<open>
  The handlers below take the conversion \<open>Number\<close> of a string as a parameter. The examples
  instantiate it with \<open>Number_decimal\<close>, which agrees with \<open>Number\<close> on the strings of
  decimal digits (the form a route parameter made from a slot identifier has).
\<close>

definition digit_value :: "char \<Rightarrow> nat option" where
  "digit_value c =
     (let n = (of_char c :: nat) in if 48 \<le> n \<and> n \<le> 57 then Some (n - 48) else None)"

fun decimal_value :: "nat \<Rightarrow> string \<Rightarrow> nat option" where
  "decimal_value acc [] = Some acc"
| "decimal_value acc (c # cs) =
     (case digit_value c of None \<Rightarrow> None | Some d \<Rightarrow> decimal_value (10 * acc + d) cs)"

definition Number_decimal :: "string \<Rightarrow> number" where
  "Number_decimal s = (case decimal_value 0 s of None \<Rightarrow> NaN | Some n \<Rightarrow> Num (int n))"

text \<open>
  A value caught by \<open>catch\<close>: an instance of \<open>Error\<close> with its message, or any other
  thrown value.
\<close>

datatype thrown = Error string | NonError

section \<open>Types of the backend records (src/types/index.ts)\<close>

datatype BookingStatus = PENDING | CONFIRMED | FAILED

record Doctor =
  doctor_ident :: int
  doctor_name :: string
  doctor_specialization :: "string option"

record AppointmentSlot =
  slot_ident :: int
  slot_doctor_id :: int
  start_time :: string
  duration_minutes :: int

record Booking =
  booking_ident :: int
  booking_slot_id :: int
  patient_name :: string
  patient_email :: "string option"
  status :: BookingStatus

section \<open>API client (src/api/medreserveApi.ts)\<close>

text \<open>
  \<open>JSON.stringify\<close> on the flat objects the client sends: a property whose value is
  \<open>undefined\<close> is left out, strings are quoted with the escapes of QuoteJSONString.
\<close>

datatype jsvalue = Undefined | JString string

fun hex_char :: "nat \<Rightarrow> char" where
  "hex_char d = ''0123456789abcdef'' ! (d mod 16)"

definition quote_char :: "char \<Rightarrow> string" where
  "quote_char c =
     (if c = CHR 0x08 then [CHR 0x5C, CHR ''b'']
      else if c = CHR 0x09 then [CHR 0x5C, CHR ''t'']
      else if c = CHR 0x0A then [CHR 0x5C, CHR ''n'']
      else if c = CHR 0x0C then [CHR 0x5C, CHR ''f'']
      else if c = CHR 0x0D then [CHR 0x5C, CHR ''r'']
      else if c = CHR 0x22 then [CHR 0x5C, CHR 0x22]
      else if c = CHR 0x5C then [CHR 0x5C, CHR 0x5C]
      else if (of_char c :: nat) < 0x20
        then [CHR 0x5C, CHR ''u'', CHR ''0'', CHR ''0'',
              hex_char (of_char c div 16), hex_char (of_char c)]
      else [c])"

definition JSON_quote :: "string \<Rightarrow> string" where
  "JSON_quote s = [CHR 0x22] @ concat (map quote_char s) @ [CHR 0x22]"

fun JSON_value :: "jsvalue \<Rightarrow> string" where
  "JSON_value Undefined = []"
| "JSON_value (JString s) = JSON_quote s"

definition JSON_members :: "(string \<times> jsvalue) list \<Rightarrow> (string \<times> jsvalue) list" where
  "JSON_members obj = filter (\<lambda>(k, v). v \<noteq> Undefined) obj"

fun join_commas :: "string list \<Rightarrow> string" where
  "join_commas [] = []"
| "join_commas [x] = x"
| "join_commas (x # y # ys) = x @ '','' @ join_commas (y # ys)"

definition JSON_stringify :: "(string \<times> jsvalue) list \<Rightarrow> string" where
  "JSON_stringify obj =
     ''{'' @ join_commas (map (\<lambda>(k, v). JSON_quote k @ '':'' @ JSON_value v) (JSON_members obj))
       @ ''}''"

text \<open>What \<open>fetch\<close> is called with.\<close>

record request =
  req_url :: string
  req_method :: "string option"
  req_headers :: "(string \<times> string) list"
  req_body :: "string option"

record RequestInit =
  init_method :: "string option"
  init_headers :: "(string \<times> string) list"
  init_body :: "string option"

text \<open>
  What \<open>fetch\<close> answers: the promise rejects with a thrown value (the transport failed),
  or it resolves to a response with a status, a status text and the outcome of reading the
  body with \<open>response.json()\<close> (the parsed value, or the value that call rejects with).
\<close>

datatype 'a transport = Rejected thrown | Responded nat string "thrown + 'a"

text \<open>A network that gives the same answer to every request.\<close>

definition answer_with :: "'a transport \<Rightarrow> request \<Rightarrow> 'a transport" where
  "answer_with t rq = t"


definition API_BASE_URL :: "string option \<Rightarrow> string" where
  "API_BASE_URL env =
     (case env of None \<Rightarrow> ''http://localhost:4000/api''
      | Some u \<Rightarrow> if u = [] then ''http://localhost:4000/api'' else u)"

definition response_ok :: "nat \<Rightarrow> bool" where
  "response_ok st = (200 \<le> st \<and> st \<le> 299)"

text \<open>Object spread of the headers: a later property with the same key replaces the earlier.\<close>

definition spread_headers :: "(string \<times> string) list \<Rightarrow> (string \<times> string) list \<Rightarrow> (string \<times> string) list" where
  "spread_headers base extra =
     map (\<lambda>(k, v). (k, case map_of extra k of None \<Rightarrow> v | Some w \<Rightarrow> w)) base
       @ filter (\<lambda>(k, v). k \<notin> fst ` set base) extra"

definition fetchApi_request :: "string \<Rightarrow> string \<Rightarrow> RequestInit option \<Rightarrow> request" where
  "fetchApi_request base endpoint options =
     \<lparr>req_url = base @ endpoint,
      req_method = (case options of None \<Rightarrow> None | Some opt \<Rightarrow> init_method opt),
      req_headers = spread_headers [(''Content-Type'', ''application/json'')]
                      (case options of None \<Rightarrow> [] | Some opt \<Rightarrow> init_headers opt),
      req_body = (case options of None \<Rightarrow> None | Some opt \<Rightarrow> init_body opt)\<rparr>"

text \<open>
  The outcome of \<open>fetchApi\<close> once \<open>fetch\<close> has answered: \<open>Inl\<close> is the value the
  returned promise rejects with (the \<open>catch\<close> block logs it and throws it again).
\<close>

fun fetchApi_result :: "'a transport \<Rightarrow> thrown + 'a" where
  "fetchApi_result (Rejected e) = Inl e"
| "fetchApi_result (Responded st statusText body) =
     (if \<not> response_ok st
      then Inl (Error (''API Error: '' @ digits st @ '' '' @ statusText))
      else body)"

text \<open>\<open>fetchApi\<close>: the request it issues, and its outcome for the answer of the network.\<close>

definition fetchApi :: "string \<Rightarrow> string \<Rightarrow> RequestInit option \<Rightarrow> (request \<Rightarrow> 'a transport) \<Rightarrow> thrown + 'a" where
  "fetchApi base endpoint options net = fetchApi_result (net (fetchApi_request base endpoint options))"

record patientData =
  pd_name :: string
  pd_email :: "string option"

definition bookAppointment_init :: "patientData \<Rightarrow> RequestInit" where
  "bookAppointment_init patientData =
     \<lparr>init_method = Some ''POST'', init_headers = [],
      init_body = Some (JSON_stringify
        [(''patient_name'', JString (pd_name patientData)),
         (''patient_email'', (case pd_email patientData of None \<Rightarrow> Undefined | Some e \<Rightarrow> JString e))])\<rparr>"

definition bookAppointment_endpoint :: "number \<Rightarrow> string" where
  "bookAppointment_endpoint slotId = ''/slots/'' @ number_text slotId @ ''/book''"

definition bookAppointment :: "string \<Rightarrow> number \<Rightarrow> patientData \<Rightarrow> (request \<Rightarrow> Booking transport) \<Rightarrow> thrown + Booking" where
  "bookAppointment base slotId patientData net =
     fetchApi base (bookAppointment_endpoint slotId) (Some (bookAppointment_init patientData)) net"

definition getDoctors :: "string \<Rightarrow> (request \<Rightarrow> Doctor list transport) \<Rightarrow> thrown + Doctor list" where
  "getDoctors base net = fetchApi base ''/doctors'' None net"

definition getDoctorSlots :: "string \<Rightarrow> int \<Rightarrow> (request \<Rightarrow> AppointmentSlot list transport) \<Rightarrow> thrown + AppointmentSlot list" where
  "getDoctorSlots base doctorId net =
     fetchApi base (''/doctors/'' @ show_int doctorId @ ''/slots'') None net"

section \<open>Booking page (src/pages/BookingPage.tsx)\<close>

datatype ToastType = toast_success | toast_error | toast_info

text \<open>
  The state of the component (\<open>useState\<close>), the \<open>slotId\<close> route parameter, and the calls
  the page has made to \<open>showToast\<close>, in order.
\<close>

record BookingPage =
  slotId :: "string option"
  name :: string
  email :: string
  isSubmitting :: bool
  error :: "string option"
  booking :: "Booking option"
  showSuccessModal :: bool
  shownToasts :: "(string \<times> ToastType) list"

definition initialBookingPage :: "string option \<Rightarrow> BookingPage" where
  "initialBookingPage sid =
     \<lparr>slotId = sid, name = [], email = [], isSubmitting = False, error = None,
      booking = None, showSuccessModal = False, shownToasts = []\<rparr>"

text \<open>
  \<open>handleSubmit\<close> up to its \<open>await\<close>: the state it leaves and the arguments of the call to
  \<open>bookAppointment\<close> it makes, if it makes one. \<open>Number\<close> is the conversion of the route
  parameter to a number. \<open>!slotId\<close> holds for \<open>undefined\<close> and for the empty string.
\<close>

definition handleSubmit_start :: "(string \<Rightarrow> number) \<Rightarrow> BookingPage \<Rightarrow> BookingPage \<times> (number \<times> patientData) option" where
  "handleSubmit_start Number st =
     (let st1 = st\<lparr>error := None\<rparr> in
      case slotId st of
        None \<Rightarrow> (st1\<lparr>error := Some ''Invalid slot ID. Please select a slot from the home page.''\<rparr>, None)
      | Some sid \<Rightarrow>
          if sid = [] then
            (st1\<lparr>error := Some ''Invalid slot ID. Please select a slot from the home page.''\<rparr>, None)
          else if trim (name st) = [] then (st1\<lparr>error := Some ''Name is required''\<rparr>, None)
          else (st1\<lparr>isSubmitting := True\<rparr>,
                Some (Number sid,
                      \<lparr>pd_name = trim (name st),
                       pd_email = (if trim (email st) = [] then None else Some (trim (email st)))\<rparr>)))"

text \<open>The rest of \<open>handleSubmit\<close>, run when the call settles: \<open>try\<close>, \<open>catch\<close>, \<open>finally\<close>.\<close>

definition errorMessage :: "thrown \<Rightarrow> string" where
  "errorMessage err = (case err of Error m \<Rightarrow> m | NonError \<Rightarrow> ''Failed to book appointment'')"

definition handleSubmit_settle :: "BookingPage \<Rightarrow> thrown + Booking \<Rightarrow> BookingPage" where
  "handleSubmit_settle st outcome =
     (case outcome of
        Inr result \<Rightarrow>
          st\<lparr>booking := Some result, error := None, showSuccessModal := True,
             shownToasts := shownToasts st @ [(''Appointment booked successfully!'', toast_success)],
             isSubmitting := False\<rparr>
      | Inl err \<Rightarrow>
          st\<lparr>error := Some (errorMessage err), booking := None,
             shownToasts := shownToasts st @ [(errorMessage err, toast_error)],
             isSubmitting := False\<rparr>)"

text \<open>The whole handler, with the network's answer to the request it issues.\<close>

definition handleSubmit :: "string \<Rightarrow> (string \<Rightarrow> number) \<Rightarrow> (request \<Rightarrow> Booking transport) \<Rightarrow> BookingPage \<Rightarrow> BookingPage" where
  "handleSubmit base Number net st =
     (case handleSubmit_start Number st of
        (st1, None) \<Rightarrow> st1
      | (st1, Some (slot, pd)) \<Rightarrow> handleSubmit_settle st1 (bookAppointment base slot pd net))"

text \<open>The request a submission puts on the network, if any.\<close>

definition handleSubmit_request :: "string \<Rightarrow> (string \<Rightarrow> number) \<Rightarrow> BookingPage \<Rightarrow> request option" where
  "handleSubmit_request base Number st =
     (case snd (handleSubmit_start Number st) of
        None \<Rightarrow> None
      | Some (slot, pd) \<Rightarrow>
          Some (fetchApi_request base (bookAppointment_endpoint slot) (Some (bookAppointment_init pd))))"

text \<open>
  The view: the form is rendered while no booking is held, and its inputs and its submit
  button carry \<open>disabled={isSubmitting}\<close>. A session of the page is a sequence of events: the
  user edits a field, the user submits the form, or an outstanding call settles.
  \<open>inFlight\<close> counts the calls to \<open>bookAppointment\<close> that have not settled.
\<close>

datatype page_event = EditName string | EditEmail string | SubmitForm | CallSettles "thrown + Booking"

record session =
  page :: BookingPage
  inFlight :: nat

definition form_enabled :: "BookingPage \<Rightarrow> bool" where
  "form_enabled st = (booking st = None \<and> \<not> isSubmitting st)"

fun session_step :: "(string \<Rightarrow> number) \<Rightarrow> session \<Rightarrow> page_event \<Rightarrow> session" where
  "session_step Number s (EditName v) =
     (if form_enabled (page s) then s\<lparr>page := (page s)\<lparr>name := v\<rparr>\<rparr> else s)"
| "session_step Number s (EditEmail v) =
     (if form_enabled (page s) then s\<lparr>page := (page s)\<lparr>email := v\<rparr>\<rparr> else s)"
| "session_step Number s SubmitForm =
     (if form_enabled (page s) then
        (case handleSubmit_start Number (page s) of
           (st1, None) \<Rightarrow> s\<lparr>page := st1\<rparr>
         | (st1, Some call) \<Rightarrow> s\<lparr>page := st1, inFlight := Suc (inFlight s)\<rparr>)
      else s)"
| "session_step Number s (CallSettles outcome) =
     (if inFlight s = 0 then s
      else s\<lparr>page := handleSubmit_settle (page s) outcome, inFlight := inFlight s - 1\<rparr>)"

fun session_run :: "(string \<Rightarrow> number) \<Rightarrow> session \<Rightarrow> page_event list \<Rightarrow> session" where
  "session_run Number s [] = s"
| "session_run Number s (e # es) = session_run Number (session_step Number s e) es"

section \<open>Patient home page (src/pages/UserHome.tsx)\<close>

record UserHome =
  selectedDoctorId :: "int option"
  slots :: "AppointmentSlot list"
  loadingSlots :: bool

definition initialUserHome :: UserHome where
  "initialUserHome = \<lparr>selectedDoctorId = None, slots = [], loadingSlots = False\<rparr>"

text \<open>\<open>handleSelectDoctor\<close> up to its \<open>await\<close>, and the rest of it once the call has settled.\<close>

definition handleSelectDoctor_start :: "int \<Rightarrow> UserHome \<Rightarrow> UserHome" where
  "handleSelectDoctor_start doctorId st =
     st\<lparr>selectedDoctorId := Some doctorId, loadingSlots := True, slots := []\<rparr>"

definition handleSelectDoctor_settle :: "thrown + AppointmentSlot list \<Rightarrow> UserHome \<Rightarrow> UserHome" where
  "handleSelectDoctor_settle outcome st =
     (case outcome of
        Inr availableSlots \<Rightarrow> st\<lparr>slots := availableSlots, loadingSlots := False\<rparr>
      | Inl err \<Rightarrow> st\<lparr>slots := [], loadingSlots := False\<rparr>)"

text \<open>
  Events of the page: the user selects a doctor, or the call \<open>getDoctorSlots d\<close> issued by an
  earlier selection of doctor \<open>d\<close> settles. The continuation does not look at \<open>d\<close>.
\<close>

datatype home_event = Select int | SlotsArrive int "thrown + AppointmentSlot list"

fun home_step :: "UserHome \<Rightarrow> home_event \<Rightarrow> UserHome" where
  "home_step st (Select d) = handleSelectDoctor_start d st"
| "home_step st (SlotsArrive d outcome) = handleSelectDoctor_settle outcome st"

fun home_run :: "UserHome \<Rightarrow> home_event list \<Rightarrow> UserHome" where
  "home_run st [] = st"
| "home_run st (e # es) = home_run (home_step st e) es"

text \<open>Every displayed slot belongs to the selected doctor.\<close>

definition scoped :: "UserHome \<Rightarrow> bool" where
  "scoped st = list_all (\<lambda>s. selectedDoctorId st = Some (slot_doctor_id s)) (slots st)"

text \<open>
  A run in which no response is stale: each response arrives while the doctor it was
  requested for is still the selected one, and lists slots of that doctor only.
\<close>

fun in_step :: "UserHome \<Rightarrow> home_event list \<Rightarrow> bool" where
  "in_step st [] = True"
| "in_step st (Select d # es) = in_step (home_step st (Select d)) es"
| "in_step st (SlotsArrive d outcome # es) =
     (selectedDoctorId st = Some d
      \<and> (case outcome of Inl err \<Rightarrow> True | Inr xs \<Rightarrow> list_all (\<lambda>s. slot_doctor_id s = d) xs)
      \<and> in_step (home_step st (SlotsArrive d outcome)) es)"

section \<open>Doctor directory (src/context/AppContext.tsx)\<close>

record AppContext =
  doctors :: "Doctor list"
  loadingDoctors :: bool
  errorDoctors :: "string option"

definition initialAppContext :: AppContext where
  "initialAppContext = \<lparr>doctors = [], loadingDoctors = False, errorDoctors = None\<rparr>"

definition fetchDoctors_start :: "AppContext \<Rightarrow> AppContext" where
  "fetchDoctors_start st = st\<lparr>loadingDoctors := True, errorDoctors := None\<rparr>"

definition fetchDoctors_settle :: "thrown + Doctor list \<Rightarrow> AppContext \<Rightarrow> AppContext" where
  "fetchDoctors_settle outcome st =
     (case outcome of
        Inr data \<Rightarrow> st\<lparr>doctors := data, loadingDoctors := False\<rparr>
      | Inl err \<Rightarrow>
          st\<lparr>errorDoctors := Some (case err of Error m \<Rightarrow> m | NonError \<Rightarrow> ''Failed to load doctors''),
             loadingDoctors := False\<rparr>)"

text \<open>
  The cache over time. \<open>fetchDoctors\<close> suspends at \<open>await getDoctors()\<close>, and nothing holds
  a second call back while one is outstanding, so between the start of a refresh and its
  settlement other refreshes can start and settle. An event is the start of a refresh, or the
  settlement of an outstanding refresh with the answer the network gave to its request;
  \<open>refreshing\<close> counts the outstanding refreshes.
\<close>

datatype cache_event = RefreshStarts | RefreshSettles "Doctor list transport"

record cache =
  app :: AppContext
  refreshing :: nat

fun cache_step :: "string \<Rightarrow> cache \<Rightarrow> cache_event \<Rightarrow> cache" where
  "cache_step base c RefreshStarts =
     c\<lparr>app := fetchDoctors_start (app c), refreshing := Suc (refreshing c)\<rparr>"
| "cache_step base c (RefreshSettles answer) =
     (if refreshing c = 0 then c
      else c\<lparr>app := fetchDoctors_settle (getDoctors base (answer_with answer)) (app c),
             refreshing := refreshing c - 1\<rparr>)"

fun cache_run :: "string \<Rightarrow> cache \<Rightarrow> cache_event list \<Rightarrow> cache" where
  "cache_run base c [] = c"
| "cache_run base c (e # es) = cache_run base (cache_step base c e) es"

text \<open>An event that is not the failure of a refresh.\<close>

fun no_failure :: "string \<Rightarrow> cache_event \<Rightarrow> bool" where
  "no_failure base RefreshStarts = True"
| "no_failure base (RefreshSettles answer) =
     (case getDoctors base (answer_with answer) of Inl err \<Rightarrow> False | Inr data \<Rightarrow> True)"

section \<open>Calendar export (src/components/BookingTicket.tsx)\<close>

text \<open>
  A \<open>Date\<close> holds a time value: the milliseconds since the epoch, an integer of magnitude at
  most 8.64e15, or \<open>NaN\<close> (an invalid date), which is \<open>None\<close> here. \<open>TimeClip\<close> is what the
  constructor applies to a number.
\<close>

type_synonym Date = "int option"

definition TimeClip :: "int \<Rightarrow> Date" where
  "TimeClip t = (if \<bar>t\<bar> \<le> 8640000000000000 then Some t else None)"

text \<open>
  \<open>new Date(string)\<close>. The parser of date strings is a parameter (what an engine accepts
  beyond the ISO format is its own choice); it answers \<open>None\<close> for \<open>NaN\<close>.
\<close>

definition Date_of_string :: "(string \<Rightarrow> int option) \<Rightarrow> string \<Rightarrow> Date" where
  "Date_of_string parse s = (case parse s of None \<Rightarrow> None | Some t \<Rightarrow> TimeClip t)"

text \<open>\<open>new Date(date.getTime() + ms)\<close>; \<open>getTime\<close> of an invalid date is \<open>NaN\<close>.\<close>

definition Date_plus :: "Date \<Rightarrow> int \<Rightarrow> Date" where
  "Date_plus date ms = (case date of None \<Rightarrow> None | Some t \<Rightarrow> TimeClip (t + ms))"

text \<open>
  The UTC fields of a time value. The date is the proleptic Gregorian date of the day number
  \<open>t div 86400000\<close>, computed by eras of 400 years (146097 days) counted from 1 March.
\<close>

definition civil_from_days :: "int \<Rightarrow> int \<times> nat \<times> nat" where
  "civil_from_days days =
     (let z = days + 719468;
          era = z div 146097;
          doe = z - era * 146097;
          yoe = (doe - doe div 1460 + doe div 36524 - doe div 146096) div 365;
          doy = doe - (365 * yoe + yoe div 4 - yoe div 100);
          mp = (5 * doy + 2) div 153;
          d = doy - (153 * mp + 2) div 5 + 1;
          m = (if mp < 10 then mp + 3 else mp - 9);
          y = yoe + era * 400 + (if m \<le> 2 then 1 else 0)
      in (y, nat m, nat d))"

definition days_from_civil :: "int \<Rightarrow> int \<Rightarrow> int \<Rightarrow> int" where
  "days_from_civil y m d =
     (let y1 = (if m \<le> 2 then y - 1 else y);
          era = y1 div 400;
          yoe = y1 - era * 400;
          doy = (153 * (if 2 < m then m - 3 else m + 9) + 2) div 5 + d - 1;
          doe = yoe * 365 + yoe div 4 - yoe div 100 + doy
      in era * 146097 + doe - 719468)"

definition utc_year :: "int \<Rightarrow> int" where
  "utc_year t = fst (civil_from_days (t div 86400000))"

definition utc_month :: "int \<Rightarrow> nat" where
  "utc_month t = fst (snd (civil_from_days (t div 86400000)))"

definition utc_date :: "int \<Rightarrow> nat" where
  "utc_date t = snd (snd (civil_from_days (t div 86400000)))"

definition utc_hours :: "int \<Rightarrow> nat" where
  "utc_hours t = nat (t div 3600000 mod 24)"

definition utc_minutes :: "int \<Rightarrow> nat" where
  "utc_minutes t = nat (t div 60000 mod 60)"

definition utc_seconds :: "int \<Rightarrow> nat" where
  "utc_seconds t = nat (t div 1000 mod 60)"

definition utc_milliseconds :: "int \<Rightarrow> nat" where
  "utc_milliseconds t = nat (t mod 1000)"

definition pad :: "nat \<Rightarrow> nat \<Rightarrow> string" where
  "pad w n = replicate (w - length (digits n)) CHR ''0'' @ digits n"

text \<open>
  \<open>Date.prototype.toISOString\<close> on a valid time value: \<open>YYYY-MM-DDTHH:mm:ss.sssZ\<close>, the year
  with a sign and six digits when it is outside 0..9999.
\<close>

definition year_text :: "int \<Rightarrow> string" where
  "year_text y =
     (if 0 \<le> y \<and> y \<le> 9999 then pad 4 (nat y)
      else (if y < 0 then ''-'' else ''+'') @ pad 6 (nat \<bar>y\<bar>))"

definition toISOString :: "int \<Rightarrow> string" where
  "toISOString t =
     year_text (utc_year t) @ ''-'' @ pad 2 (utc_month t) @ ''-'' @ pad 2 (utc_date t) @ ''T''
       @ pad 2 (utc_hours t) @ '':'' @ pad 2 (utc_minutes t) @ '':'' @ pad 2 (utc_seconds t)
       @ ''.'' @ pad 3 (utc_milliseconds t) @ ''Z''"

text \<open>
  \<open>formatDate\<close> of \<open>generateICS\<close>: \<open>toISOString\<close>, every \<open>-\<close> and \<open>:\<close> removed, the part before
  the first \<open>.\<close>, then \<open>Z\<close>. On an invalid date \<open>toISOString\<close> throws a \<open>RangeError\<close>
  (\<open>None\<close>).
\<close>

definition formatTime :: "int \<Rightarrow> string" where
  "formatTime t =
     takeWhile (\<lambda>c. c \<noteq> CHR ''.'') (filter (\<lambda>c. c \<noteq> CHR ''-'' \<and> c \<noteq> CHR '':'') (toISOString t))
       @ ''Z''"

definition formatDate :: "Date \<Rightarrow> string option" where
  "formatDate date = (case date of None \<Rightarrow> None | Some t \<Rightarrow> Some (formatTime t))"

fun join_lines :: "string list \<Rightarrow> string" where
  "join_lines [] = []"
| "join_lines [l] = l"
| "join_lines (l # m # ls) = l @ [CHR 0x0A] @ join_lines (m # ls)"

text \<open>
  \<open>generateICS\<close>. \<open>now\<close> is the reading of the clock (\<open>new Date()\<close>) at the call; the result
  is \<open>None\<close> when \<open>formatDate\<close> throws. The numeric booking identifier is an integer.
\<close>

definition generateICS :: "(string \<Rightarrow> int option) \<Rightarrow> int \<Rightarrow> Booking \<Rightarrow> AppointmentSlot option \<Rightarrow> Doctor option \<Rightarrow> string option" where
  "generateICS parse now bkg slot doctor =
     (let start = (case slot of Some s \<Rightarrow> Date_of_string parse (start_time s) | None \<Rightarrow> Some now);
          endDate = (case slot of Some s \<Rightarrow> Date_plus start (duration_minutes s * 60000)
                     | None \<Rightarrow> Date_plus start (30 * 60000));
          summary = ''Appointment with ''
            @ (case doctor of None \<Rightarrow> ''Doctor''
               | Some d \<Rightarrow> if doctor_name d = [] then ''Doctor'' else doctor_name d);
          description = ''Booking ID: '' @ show_int (booking_ident bkg) @ [CHR 0x0A]
            @ ''Patient: '' @ patient_name bkg
      in case formatDate (Some now) of None \<Rightarrow> None | Some dtstamp \<Rightarrow>
         (case formatDate start of None \<Rightarrow> None | Some dtstart \<Rightarrow>
         (case formatDate endDate of None \<Rightarrow> None | Some dtend \<Rightarrow>
           Some (join_lines
             [''BEGIN:VCALENDAR'',
              ''VERSION:2.0'',
              ''PRODID:-//MedReserve//Appointment//EN'',
              ''BEGIN:VEVENT'',
              ''UID:'' @ show_int (booking_ident bkg) @ ''@medreserve.com'',
              ''DTSTAMP:'' @ dtstamp,
              ''DTSTART:'' @ dtstart,
              ''DTEND:'' @ dtend,
              ''SUMMARY:'' @ summary,
              ''DESCRIPTION:'' @ description,
              ''STATUS:CONFIRMED'',
              ''END:VEVENT'',
              ''END:VCALENDAR'']))))"

text \<open>
  The UTC date-time form \<open>YYYY-MM-DDTHH:mm:ssZ\<close> of the ECMAScript date-time string format,
  for a date that exists in the calendar; the examples instantiate the parser with it.
\<close>

definition parse_utc_timestamp :: "string \<Rightarrow> int option" where
  "parse_utc_timestamp s =
     (if length s = 20 \<and> s ! 4 = CHR ''-'' \<and> s ! 7 = CHR ''-'' \<and> s ! 10 = CHR ''T''
         \<and> s ! 13 = CHR '':'' \<and> s ! 16 = CHR '':'' \<and> s ! 19 = CHR ''Z''
      then
        (case (decimal_value 0 (take 4 s), decimal_value 0 (take 2 (drop 5 s)),
               decimal_value 0 (take 2 (drop 8 s)), decimal_value 0 (take 2 (drop 11 s)),
               decimal_value 0 (take 2 (drop 14 s)), decimal_value 0 (take 2 (drop 17 s))) of
           (Some y, Some m, Some d, Some h, Some mi, Some sec) \<Rightarrow>
             (let days = days_from_civil (int y) (int m) (int d) in
              if civil_from_days days = (int y, m, d) \<and> h < 24 \<and> mi < 60 \<and> sec < 60
              then Some (days * 86400000 + int h * 3600000 + int mi * 60000 + int sec * 1000)
              else None)
         | _ \<Rightarrow> None)
      else None)"

text \<open>
  The calendar file's own date-time form, \<open>YYYYMMDDTHHMMSSZ\<close> in UTC, of the second that
  holds a time value whose year has four digits.
\<close>

definition ics_utc :: "int \<Rightarrow> string" where
  "ics_utc t =
     pad 4 (nat (utc_year t)) @ pad 2 (utc_month t) @ pad 2 (utc_date t) @ ''T''
       @ pad 2 (utc_hours t) @ pad 2 (utc_minutes t) @ pad 2 (utc_seconds t) @ ''Z''"

definition calendar_time :: "int \<Rightarrow> bool" where
  "calendar_time t = (\<bar>t\<bar> \<le> 8640000000000000 \<and> 0 \<le> utc_year t \<and> utc_year t \<le> 9999)"

section \<open>Toast notification (src/components/Toast.tsx)\<close>


















section \<open>Properties\<close>

subsection \<open>Strings and numbers\<close>

lemma all_dropWhile: "(\<forall>x\<in>set (dropWhile P s). P x) \<longleftrightarrow> (\<forall>x\<in>set s. P x)"
proof
  assume a: "\<forall>x\<in>set (dropWhile P s). P x"
  have "dropWhile P s = []"
  proof (rule ccontr)
    assume n: "dropWhile P s \<noteq> []"
    then have "\<not> P (hd (dropWhile P s))" by (rule hd_dropWhile)
    moreover have "hd (dropWhile P s) \<in> set (dropWhile P s)" using n by simp
    ultimately show False using a by blast
  qed
  then show "\<forall>x\<in>set s. P x" by (simp add: dropWhile_eq_Nil_conv)
next
  assume "\<forall>x\<in>set s. P x"
  then show "\<forall>x\<in>set (dropWhile P s). P x" by (blast dest: set_dropWhileD)
qed

lemma trim_Nil_iff: "trim s = [] \<longleftrightarrow> list_all isWhiteSpace s"
  by (simp add: trim_def dropWhile_eq_Nil_conv list_all_iff all_dropWhile)




lemma digit_value_digit_char: "d < 10 \<Longrightarrow> digit_value (digit_char d) = Some d"
proof -
  assume "d < 10"
  then have "d = 0 \<or> d = 1 \<or> d = 2 \<or> d = 3 \<or> d = 4 \<or> d = 5 \<or> d = 6 \<or> d = 7
    \<or> d = 8 \<or> d = 9" by arith
  then show ?thesis
    by (elim disjE) (simp_all add: digit_value_def digit_char_def)
qed

lemma decimal_value_snoc:
  "decimal_value acc (xs @ [c]) =
     (case decimal_value acc xs of None \<Rightarrow> None
      | Some v \<Rightarrow> (case digit_value c of None \<Rightarrow> None | Some d \<Rightarrow> Some (10 * v + d)))"
  by (induction xs arbitrary: acc) (auto split: option.splits)

lemma decimal_value_digits: "decimal_value 0 (digits n) = Some n"
proof (induction n rule: digits.induct)
  case (1 n)
  show ?case
  proof (cases "n < 10")
    case True
    then show ?thesis by (simp add: digits.simps [of n] digit_value_digit_char)
  next
    case False
    then have "decimal_value 0 (digits (n div 10)) = Some (n div 10)" using 1 by simp
    then show ?thesis using False
      by (simp add: digits.simps [of n] decimal_value_snoc digit_value_digit_char)
  qed
qed

subsection \<open>Booking submission\<close>

text \<open>
  Claim C3. A submission whose patient name is empty or consists only of whitespace makes no
  network call: \<open>handleSubmit\<close> issues no request, it only sets the error text (a
  validation message, never blank), and it leaves \<open>isSubmitting\<close> and the stored booking
  as they were, so a page that was idle stays idle.
\<close>

theorem blank_name_fails_locally:
  assumes "list_all isWhiteSpace (name st)"
  shows "handleSubmit_request base Number st = None
       \<and> snd (handleSubmit_start Number st) = None
       \<and> handleSubmit base Number net st =
           st\<lparr>error := Some (if slotId st = None \<or> slotId st = Some []
                              then ''Invalid slot ID. Please select a slot from the home page.''
                              else ''Name is required'')\<rparr>
       \<and> error (handleSubmit base Number net st) \<noteq> None
       \<and> error (handleSubmit base Number net st) \<noteq> Some []
       \<and> isSubmitting (handleSubmit base Number net st) = isSubmitting st
       \<and> booking (handleSubmit base Number net st) = booking st"
  using assms
  by (auto simp: handleSubmit_request_def handleSubmit_def handleSubmit_start_def trim_Nil_iff Let_def split: option.splits)

theorem blank_name_fails_locally_witness:
  "list_all isWhiteSpace (name ((initialBookingPage (Some ''10''))\<lparr>name := ''   ''\<rparr>))
   \<and> handleSubmit_request (API_BASE_URL None) Number_decimal
        ((initialBookingPage (Some ''10''))\<lparr>name := ''   ''\<rparr>) = None
   \<and> handleSubmit (API_BASE_URL None) Number_decimal (answer_with (Rejected NonError))
        ((initialBookingPage (Some ''10''))\<lparr>name := ''   ''\<rparr>)
       = (initialBookingPage (Some ''10''))\<lparr>name := ''   '', error := Some ''Name is required''\<rparr>
   \<and> \<not> isSubmitting (handleSubmit (API_BASE_URL None) Number_decimal (answer_with (Rejected NonError))
        ((initialBookingPage (Some ''10''))\<lparr>name := ''   ''\<rparr>))
   \<and> booking (handleSubmit (API_BASE_URL None) Number_decimal (answer_with (Rejected NonError))
        ((initialBookingPage (Some ''10''))\<lparr>name := ''   ''\<rparr>)) = None"
  using blank_name_fails_locally [of "(initialBookingPage (Some ''10''))\<lparr>name := ''   ''\<rparr>"
      "API_BASE_URL None" Number_decimal "answer_with (Rejected NonError)"]
  by (simp add: initialBookingPage_def isWhiteSpace_def)

lemma session_step_inv:
  assumes "inFlight s = (if isSubmitting (page s) then 1 else 0)"
  shows "inFlight (session_step Number s e) = (if isSubmitting (page (session_step Number s e)) then 1 else 0)"
  using assms
  by (cases e)
     (auto simp: form_enabled_def handleSubmit_start_def handleSubmit_settle_def Let_def
           split: option.splits sum.splits if_splits)

lemma session_run_inv:
  assumes "inFlight s = (if isSubmitting (page s) then 1 else 0)"
  shows "inFlight (session_run Number s evs) = (if isSubmitting (page (session_run Number s evs)) then 1 else 0)"
  using assms
proof (induction evs arbitrary: s)
  case Nil
  then show ?case by simp
next
  case (Cons e evs)
  have "inFlight (session_step Number s e) = (if isSubmitting (page (session_step Number s e)) then 1 else 0)"
    using Cons.prems by (rule session_step_inv)
  then show ?case using Cons.IH by simp
qed

text \<open>
  Claim C2. \<open>handleSubmit\<close> is invoked by the form only, whose submit button and inputs are
  disabled while \<open>isSubmitting\<close> holds (and which is gone once a booking is held). In every
  session of the page, from its initial state, at most one call to \<open>bookAppointment\<close> is
  outstanding, and submitting while one is outstanding changes nothing and calls nothing.
\<close>

theorem at_most_one_submission_in_flight:
  "inFlight (session_run Number \<lparr>page = initialBookingPage sid, inFlight = 0\<rparr> evs) \<le> 1
   \<and> (isSubmitting (page (session_run Number \<lparr>page = initialBookingPage sid, inFlight = 0\<rparr> evs)) \<longrightarrow>
        session_step Number (session_run Number \<lparr>page = initialBookingPage sid, inFlight = 0\<rparr> evs) SubmitForm
          = session_run Number \<lparr>page = initialBookingPage sid, inFlight = 0\<rparr> evs)"
proof -
  have "inFlight \<lparr>page = initialBookingPage sid, inFlight = 0\<rparr>
     = (if isSubmitting (page \<lparr>page = initialBookingPage sid, inFlight = 0\<rparr>) then 1 else 0)"
    by (simp add: initialBookingPage_def)
  from session_run_inv [OF this, of Number evs] show ?thesis by (simp add: form_enabled_def)
qed

theorem at_most_one_submission_in_flight_witness:
  "isSubmitting (page (session_run Number_decimal
         \<lparr>page = initialBookingPage (Some ''10''), inFlight = 0\<rparr>
         [EditName ''Jane Doe'', SubmitForm, SubmitForm]))
   \<and> inFlight (session_run Number_decimal
         \<lparr>page = initialBookingPage (Some ''10''), inFlight = 0\<rparr>
         [EditName ''Jane Doe'', SubmitForm, SubmitForm]) = 1
   \<and> session_step Number_decimal (session_run Number_decimal
         \<lparr>page = initialBookingPage (Some ''10''), inFlight = 0\<rparr>
         [EditName ''Jane Doe'', SubmitForm, SubmitForm]) SubmitForm
       = session_run Number_decimal
         \<lparr>page = initialBookingPage (Some ''10''), inFlight = 0\<rparr>
         [EditName ''Jane Doe'', SubmitForm, SubmitForm]"
proof -
  have e: "isSubmitting (page (session_run Number_decimal
         \<lparr>page = initialBookingPage (Some ''10''), inFlight = 0\<rparr>
         [EditName ''Jane Doe'', SubmitForm, SubmitForm]))"
    by code_simp
  have f: "inFlight (session_run Number_decimal
         \<lparr>page = initialBookingPage (Some ''10''), inFlight = 0\<rparr>
         [EditName ''Jane Doe'', SubmitForm, SubmitForm]) = 1"
    by code_simp
  from at_most_one_submission_in_flight [of Number_decimal "Some ''10''"
      "[EditName ''Jane Doe'', SubmitForm, SubmitForm]"] e f
  show ?thesis by blast
qed

text \<open>
  Claim C4, evaluated on the code at a failure whose error object is an \<open>Error\<close> with the
  empty message: the text stored for inline display and the text passed to \<open>showToast\<close> are
  both blank. The fallback string is used only when the thrown value is not an \<open>Error\<close>.
\<close>

theorem blank_failure_message_counterexample:
  "error (handleSubmit_settle
      ((initialBookingPage (Some ''10''))\<lparr>name := ''Jane Doe'', isSubmitting := True\<rparr>)
      (Inl (Error []))) = Some []
   \<and> shownToasts (handleSubmit_settle
      ((initialBookingPage (Some ''10''))\<lparr>name := ''Jane Doe'', isSubmitting := True\<rparr>)
      (Inl (Error []))) = [([], toast_error)]"
  by (simp add: handleSubmit_settle_def errorMessage_def initialBookingPage_def)

text \<open>
  What the failure path does for every thrown value: the message shown is the message of the
  \<open>Error\<close>, or the fallback string for a value that is not an \<open>Error\<close>; it is blank only
  for an \<open>Error\<close> with the empty message, which \<open>fetchApi\<close> itself never raises for a
  response outside the success range.
\<close>

theorem failure_message_shown:
  "error (handleSubmit_settle st (Inl err)) = Some (errorMessage err)
   \<and> shownToasts (handleSubmit_settle st (Inl err)) = shownToasts st @ [(errorMessage err, toast_error)]
   \<and> booking (handleSubmit_settle st (Inl err)) = None
   \<and> \<not> isSubmitting (handleSubmit_settle st (Inl err))
   \<and> (\<forall>m. err = Error m \<longrightarrow> errorMessage err = m)
   \<and> (err = NonError \<longrightarrow> errorMessage err = ''Failed to book appointment'')
   \<and> (err \<noteq> Error [] \<longrightarrow> errorMessage err \<noteq> [])
   \<and> (\<forall>code statusText body. \<not> response_ok code \<longrightarrow>
         fetchApi_result (Responded code statusText body) \<noteq> Inl (Error []))"
  by (cases err) (auto simp: handleSubmit_settle_def errorMessage_def)

theorem failure_message_shown_witness:
  "error (handleSubmit (API_BASE_URL None) Number_decimal
       (answer_with (Responded 409 ''Conflict'' (Inl NonError)))
       ((initialBookingPage (Some ''10''))\<lparr>name := ''Jane Doe''\<rparr>))
     = Some ''API Error: 409 Conflict''
   \<and> errorMessage NonError = ''Failed to book appointment''
   \<and> errorMessage (Error ''API Error: 409 Conflict'') \<noteq> []"
proof -
  have a: "handleSubmit (API_BASE_URL None) Number_decimal
       (answer_with (Responded 409 ''Conflict'' (Inl NonError)))
       ((initialBookingPage (Some ''10''))\<lparr>name := ''Jane Doe''\<rparr>)
     = handleSubmit_settle ((initialBookingPage (Some ''10''))\<lparr>name := ''Jane Doe'', isSubmitting := True\<rparr>)
         (Inl (Error ''API Error: 409 Conflict''))"
    by code_simp
  have b: "Error ''API Error: 409 Conflict'' \<noteq> Error []" by simp
  from failure_message_shown [of "(initialBookingPage (Some ''10''))\<lparr>name := ''Jane Doe'', isSubmitting := True\<rparr>"
      "Error ''API Error: 409 Conflict''"]
    failure_message_shown [of "(initialBookingPage (Some ''10''))\<lparr>name := ''Jane Doe'', isSubmitting := True\<rparr>" NonError]
    a b
  show ?thesis by simp
qed



subsection \<open>API client\<close>

text \<open>
  Claim C8. If \<open>fetch\<close> rejects, \<open>fetchApi\<close> rejects with the same value. If the response
  status is outside 200..299, \<open>fetchApi\<close> rejects with an \<open>Error\<close> whose message is
  \<open>API Error:\<close> followed by the status code in decimal (the code can be read back from the
  digits) and the status text, and no parsed body is returned.
\<close>

theorem fetchApi_failures_propagate:
  "(net (fetchApi_request base endpoint options) = Rejected e \<longrightarrow>
      fetchApi base endpoint options net = Inl e)
   \<and> (net (fetchApi_request base endpoint options) = Responded code statusText body
        \<and> \<not> response_ok code \<longrightarrow>
      fetchApi base endpoint options net
        = Inl (Error (''API Error: '' @ digits code @ '' '' @ statusText))
      \<and> decimal_value 0 (digits code) = Some code
      \<and> (\<forall>v. fetchApi base endpoint options net \<noteq> Inr v))"
  by (simp add: fetchApi_def decimal_value_digits)

theorem fetchApi_failures_propagate_witness:
  "fetchApi ''http://localhost:4000/api'' ''/doctors'' None
       (answer_with (Rejected (Error ''Failed to fetch'')) :: request \<Rightarrow> Doctor list transport)
     = Inl (Error ''Failed to fetch'')
   \<and> \<not> response_ok 409
   \<and> fetchApi ''http://localhost:4000/api'' ''/doctors'' None
       (answer_with (Responded 409 ''Conflict'' (Inr [])) :: request \<Rightarrow> Doctor list transport)
     = Inl (Error ''API Error: 409 Conflict'')"
proof -
  let ?rq = "fetchApi_request ''http://localhost:4000/api'' ''/doctors'' None"
  let ?down = "answer_with (Rejected (Error ''Failed to fetch'')) :: request \<Rightarrow> Doctor list transport"
  let ?conflict = "answer_with (Responded 409 ''Conflict'' (Inr [])) :: request \<Rightarrow> Doctor list transport"
  have d: "digits 409 = ''409''" by code_simp
  have r: "\<not> response_ok 409" by (simp add: response_ok_def)
  have n1: "?down ?rq = Rejected (Error ''Failed to fetch'')" by (simp add: answer_with_def)
  have n2: "?conflict ?rq = Responded 409 ''Conflict'' (Inr [])" by (simp add: answer_with_def)
  have A: "fetchApi ''http://localhost:4000/api'' ''/doctors'' None ?down = Inl (Error ''Failed to fetch'')"
    using fetchApi_failures_propagate [of ?down "''http://localhost:4000/api''" "''/doctors''" None
        "Error ''Failed to fetch''"] n1 by blast
  have "fetchApi ''http://localhost:4000/api'' ''/doctors'' None ?conflict
          = Inl (Error (''API Error: '' @ digits 409 @ '' '' @ ''Conflict''))"
    using fetchApi_failures_propagate [of ?conflict "''http://localhost:4000/api''" "''/doctors''" None
        _ 409 "''Conflict''" "Inr []"] n2 r by blast
  then have B: "fetchApi ''http://localhost:4000/api'' ''/doctors'' None ?conflict
          = Inl (Error ''API Error: 409 Conflict'')"
    by (simp add: d)
  show ?thesis using A B r by blast
qed

subsection \<open>Doctor directory\<close>

text \<open>
  Claim C5, as stated, fails when refreshes overlap: two refreshes start, one fails, then the
  other succeeds. The success writes the list only, so after a refresh that succeeded the
  error value is the message of the failure, not cleared.
\<close>

theorem overlapping_refresh_counterexample:
  "app (cache_run ''http://localhost:4000/api'' \<lparr>app = initialAppContext, refreshing = 0\<rparr>
      [RefreshStarts, RefreshStarts,
       RefreshSettles (Responded 503 ''Service Unavailable'' (Inr [])),
       RefreshSettles (Responded 200 ''OK''
         (Inr [\<lparr>doctor_ident = 1, doctor_name = ''A. Smith'', doctor_specialization = None\<rparr>]))])
   = \<lparr>doctors = [\<lparr>doctor_ident = 1, doctor_name = ''A. Smith'', doctor_specialization = None\<rparr>],
       loadingDoctors = False,
       errorDoctors = Some ''API Error: 503 Service Unavailable''\<rparr>"
  by code_simp

lemma cache_run_append:
  "cache_run base c (es @ fs) = cache_run base (cache_run base c es) fs"
  by (induction es arbitrary: c) simp_all

lemma no_failure_keeps_cleared:
  assumes "errorDoctors (app c) = None" and "list_all (no_failure base) evs"
  shows "errorDoctors (app (cache_run base c evs)) = None"
  using assms
proof (induction evs arbitrary: c)
  case Nil
  then show ?case by simp
next
  case (Cons e evs)
  have "errorDoctors (app (cache_step base c e)) = None"
    using Cons.prems
    by (cases e) (auto simp: fetchDoctors_start_def fetchDoctors_settle_def split: sum.splits)
  then show ?case using Cons.IH Cons.prems(2) by simp
qed

text \<open>
  Claim C5, amended. A refresh that fails leaves the cached list as it was and sets the error
  value. A refresh that succeeds replaces the cached list wholesale by the fetched list and
  leaves the error value as it finds it; the start of a refresh clears the error value and
  keeps the list. So after a refresh that succeeds the error value is cleared whenever no
  refresh has failed between the start of that refresh and its settlement, whatever other
  refreshes started or succeeded in between.
\<close>

theorem refresh_outcomes:
  "(0 < refreshing c \<and> getDoctors base (answer_with answer) = Inl err \<longrightarrow>
      doctors (app (cache_step base c (RefreshSettles answer))) = doctors (app c)
      \<and> errorDoctors (app (cache_step base c (RefreshSettles answer)))
          = Some (case err of Error m \<Rightarrow> m | NonError \<Rightarrow> ''Failed to load doctors''))
   \<and> (0 < refreshing c \<and> getDoctors base (answer_with answer) = Inr data \<longrightarrow>
      doctors (app (cache_step base c (RefreshSettles answer))) = data
      \<and> errorDoctors (app (cache_step base c (RefreshSettles answer))) = errorDoctors (app c))
   \<and> doctors (app (cache_step base c RefreshStarts)) = doctors (app c)
   \<and> errorDoctors (app (cache_step base c RefreshStarts)) = None
   \<and> (list_all (no_failure base) evs
        \<and> 0 < refreshing (cache_run base c (RefreshStarts # evs))
        \<and> getDoctors base (answer_with answer) = Inr data \<longrightarrow>
      doctors (app (cache_run base c (RefreshStarts # evs @ [RefreshSettles answer]))) = data
      \<and> errorDoctors (app (cache_run base c (RefreshStarts # evs @ [RefreshSettles answer]))) = None)"
proof -
  have a: "0 < refreshing c \<and> getDoctors base (answer_with answer) = Inl err \<longrightarrow>
      doctors (app (cache_step base c (RefreshSettles answer))) = doctors (app c)
      \<and> errorDoctors (app (cache_step base c (RefreshSettles answer)))
          = Some (case err of Error m \<Rightarrow> m | NonError \<Rightarrow> ''Failed to load doctors'')"
    by (simp add: fetchDoctors_settle_def)
  have b: "0 < refreshing c \<and> getDoctors base (answer_with answer) = Inr data \<longrightarrow>
      doctors (app (cache_step base c (RefreshSettles answer))) = data
      \<and> errorDoctors (app (cache_step base c (RefreshSettles answer))) = errorDoctors (app c)"
    by (simp add: fetchDoctors_settle_def)
  have s: "doctors (app (cache_step base c RefreshStarts)) = doctors (app c)
      \<and> errorDoctors (app (cache_step base c RefreshStarts)) = None"
    by (simp add: fetchDoctors_start_def)
  have r: "list_all (no_failure base) evs
        \<and> 0 < refreshing (cache_run base c (RefreshStarts # evs))
        \<and> getDoctors base (answer_with answer) = Inr data \<longrightarrow>
      doctors (app (cache_run base c (RefreshStarts # evs @ [RefreshSettles answer]))) = data
      \<and> errorDoctors (app (cache_run base c (RefreshStarts # evs @ [RefreshSettles answer]))) = None"
  proof (intro impI)
    assume h: "list_all (no_failure base) evs
        \<and> 0 < refreshing (cache_run base c (RefreshStarts # evs))
        \<and> getDoctors base (answer_with answer) = Inr data"
    let ?c1 = "cache_step base c RefreshStarts"
    let ?c2 = "cache_run base ?c1 evs"
    have e1: "errorDoctors (app ?c1) = None" by (simp add: fetchDoctors_start_def)
    have e2: "errorDoctors (app ?c2) = None"
      using e1 h by (intro no_failure_keeps_cleared) simp_all
    have p: "0 < refreshing ?c2" using h by simp
    have run: "cache_run base c (RefreshStarts # evs @ [RefreshSettles answer])
        = cache_step base ?c2 (RefreshSettles answer)"
      by (simp add: cache_run_append)
    show "doctors (app (cache_run base c (RefreshStarts # evs @ [RefreshSettles answer]))) = data
      \<and> errorDoctors (app (cache_run base c (RefreshStarts # evs @ [RefreshSettles answer]))) = None"
      unfolding run using p h e2 by (simp add: fetchDoctors_settle_def)
  qed
  show ?thesis using a b s r by blast
qed

theorem refresh_outcomes_witness:
  "getDoctors ''http://localhost:4000/api'' (answer_with (Responded 503 ''Service Unavailable'' (Inr [])))
     = Inl (Error ''API Error: 503 Service Unavailable'')
   \<and> app (cache_step ''http://localhost:4000/api''
        \<lparr>app = \<lparr>doctors = [\<lparr>doctor_ident = 1, doctor_name = ''A. Smith'', doctor_specialization = None\<rparr>],
                 loadingDoctors = True, errorDoctors = None\<rparr>,
          refreshing = 1\<rparr>
        (RefreshSettles (Responded 503 ''Service Unavailable'' (Inr []))))
     = \<lparr>doctors = [\<lparr>doctor_ident = 1, doctor_name = ''A. Smith'', doctor_specialization = None\<rparr>],
         loadingDoctors = False, errorDoctors = Some ''API Error: 503 Service Unavailable''\<rparr>
   \<and> list_all (no_failure ''http://localhost:4000/api'')
        [RefreshStarts,
         RefreshSettles (Responded 200 ''OK''
           (Inr [\<lparr>doctor_ident = 2, doctor_name = ''B. Jones'', doctor_specialization = None\<rparr>]))]
   \<and> 0 < refreshing (cache_run ''http://localhost:4000/api''
        \<lparr>app = \<lparr>doctors = [\<lparr>doctor_ident = 1, doctor_name = ''A. Smith'', doctor_specialization = None\<rparr>],
                 loadingDoctors = False, errorDoctors = Some ''API Error: 503 Service Unavailable''\<rparr>,
          refreshing = 0\<rparr>
        (RefreshStarts #
         [RefreshStarts,
          RefreshSettles (Responded 200 ''OK''
            (Inr [\<lparr>doctor_ident = 2, doctor_name = ''B. Jones'', doctor_specialization = None\<rparr>]))]))
   \<and> doctors (app (cache_run ''http://localhost:4000/api''
        \<lparr>app = \<lparr>doctors = [\<lparr>doctor_ident = 1, doctor_name = ''A. Smith'', doctor_specialization = None\<rparr>],
                 loadingDoctors = False, errorDoctors = Some ''API Error: 503 Service Unavailable''\<rparr>,
          refreshing = 0\<rparr>
        (RefreshStarts #
         [RefreshStarts,
          RefreshSettles (Responded 200 ''OK''
            (Inr [\<lparr>doctor_ident = 2, doctor_name = ''B. Jones'', doctor_specialization = None\<rparr>]))]
         @ [RefreshSettles (Responded 200 ''OK''
            (Inr [\<lparr>doctor_ident = 3, doctor_name = ''C. Wu'', doctor_specialization = None\<rparr>]))])))
     = [\<lparr>doctor_ident = 3, doctor_name = ''C. Wu'', doctor_specialization = None\<rparr>]
   \<and> errorDoctors (app (cache_run ''http://localhost:4000/api''
        \<lparr>app = \<lparr>doctors = [\<lparr>doctor_ident = 1, doctor_name = ''A. Smith'', doctor_specialization = None\<rparr>],
                 loadingDoctors = False, errorDoctors = Some ''API Error: 503 Service Unavailable''\<rparr>,
          refreshing = 0\<rparr>
        (RefreshStarts #
         [RefreshStarts,
          RefreshSettles (Responded 200 ''OK''
            (Inr [\<lparr>doctor_ident = 2, doctor_name = ''B. Jones'', doctor_specialization = None\<rparr>]))]
         @ [RefreshSettles (Responded 200 ''OK''
            (Inr [\<lparr>doctor_ident = 3, doctor_name = ''C. Wu'', doctor_specialization = None\<rparr>]))])))
     = None"
proof -
  let ?base = "''http://localhost:4000/api''"
  let ?old = "[\<lparr>doctor_ident = 1, doctor_name = ''A. Smith'', doctor_specialization = None\<rparr>]"
  let ?mid = "[\<lparr>doctor_ident = 2, doctor_name = ''B. Jones'', doctor_specialization = None\<rparr>]"
  let ?new = "[\<lparr>doctor_ident = 3, doctor_name = ''C. Wu'', doctor_specialization = None\<rparr>]"
  let ?bad = "Responded 503 ''Service Unavailable'' (Inr []) :: Doctor list transport"
  let ?good = "Responded 200 ''OK'' (Inr ?new) :: Doctor list transport"
  let ?c1 = "\<lparr>app = \<lparr>doctors = ?old, loadingDoctors = True, errorDoctors = None\<rparr>, refreshing = 1\<rparr>"
  let ?c0 = "\<lparr>app = \<lparr>doctors = ?old, loadingDoctors = False,
                      errorDoctors = Some ''API Error: 503 Service Unavailable''\<rparr>, refreshing = 0\<rparr>"
  let ?evs = "[RefreshStarts, RefreshSettles (Responded 200 ''OK'' (Inr ?mid))]"
  have f: "getDoctors ?base (answer_with ?bad) = Inl (Error ''API Error: 503 Service Unavailable'')"
    by code_simp
  have g: "getDoctors ?base (answer_with ?good) = Inr ?new"
    by code_simp
  have p: "0 < refreshing ?c1" by simp
  have l: "list_all (no_failure ?base) ?evs" by code_simp
  have r: "0 < refreshing (cache_run ?base ?c0 (RefreshStarts # ?evs))" by code_simp
  have lo: "loadingDoctors (app (cache_step ?base ?c1 (RefreshSettles ?bad))) = False"
    by code_simp
  from refresh_outcomes [of ?c1 ?base ?bad "Error ''API Error: 503 Service Unavailable''"] f p
  have A: "doctors (app (cache_step ?base ?c1 (RefreshSettles ?bad))) = ?old
      \<and> errorDoctors (app (cache_step ?base ?c1 (RefreshSettles ?bad)))
          = Some ''API Error: 503 Service Unavailable''"
    by simp
  then have A': "app (cache_step ?base ?c1 (RefreshSettles ?bad))
      = \<lparr>doctors = ?old, loadingDoctors = False, errorDoctors = Some ''API Error: 503 Service Unavailable''\<rparr>"
    using lo by (cases "app (cache_step ?base ?c1 (RefreshSettles ?bad))") simp
  from refresh_outcomes [of ?c0 ?base ?good _ ?new ?evs] g l r
  have B: "doctors (app (cache_run ?base ?c0 (RefreshStarts # ?evs @ [RefreshSettles ?good]))) = ?new
      \<and> errorDoctors (app (cache_run ?base ?c0 (RefreshStarts # ?evs @ [RefreshSettles ?good]))) = None"
    by blast
  show ?thesis using f A' l r B by blast
qed

subsection \<open>Slot query\<close>

text \<open>
  Claim C1, as stated, fails: doctor 1 is selected, then doctor 2, then the response for doctor 1
  arrives. It is applied: the page shows doctor 1's slot, not loading, with doctor 2 selected.
\<close>

theorem stale_slots_displayed_counterexample:
  "selectedDoctorId (home_run initialUserHome
      [Select 1, Select 2,
       SlotsArrive 1 (Inr [\<lparr>slot_ident = 10, slot_doctor_id = 1,
                             start_time = ''2024-06-01T09:00:00Z'', duration_minutes = 30\<rparr>])])
     = Some 2
   \<and> slots (home_run initialUserHome
      [Select 1, Select 2,
       SlotsArrive 1 (Inr [\<lparr>slot_ident = 10, slot_doctor_id = 1,
                             start_time = ''2024-06-01T09:00:00Z'', duration_minutes = 30\<rparr>])])
     = [\<lparr>slot_ident = 10, slot_doctor_id = 1,
          start_time = ''2024-06-01T09:00:00Z'', duration_minutes = 30\<rparr>]
   \<and> \<not> loadingSlots (home_run initialUserHome
      [Select 1, Select 2,
       SlotsArrive 1 (Inr [\<lparr>slot_ident = 10, slot_doctor_id = 1,
                             start_time = ''2024-06-01T09:00:00Z'', duration_minutes = 30\<rparr>])])"
  by (simp add: initialUserHome_def handleSelectDoctor_start_def handleSelectDoctor_settle_def)

lemma home_step_scoped:
  assumes "in_step st (e # es)"
  shows "scoped (home_step st e)"
  using assms
  by (cases e)
     (auto simp: scoped_def handleSelectDoctor_start_def handleSelectDoctor_settle_def list_all_iff
           split: sum.splits)

lemma home_run_scoped:
  assumes "scoped st" and "in_step st evs"
  shows "scoped (home_run st evs)"
  using assms
proof (induction evs arbitrary: st)
  case Nil
  then show ?case by simp
next
  case (Cons e evs)
  have s: "scoped (home_step st e)" using Cons.prems(2) by (rule home_step_scoped)
  have i: "in_step (home_step st e) evs" using Cons.prems(2) by (cases e) simp_all
  show ?case using Cons.IH [OF s i] by simp
qed

text \<open>
  Claim C1, amended. Selecting a doctor empties the displayed list at once and sets the loading
  flag, and a response is applied whenever it arrives (its slots are displayed, or none when
  the call failed). So the displayed slots all belong to the selected doctor in every run in
  which no response is stale, that is, each response arrives while the doctor it was requested
  for is still the selected one (and lists that doctor's slots only).
\<close>

theorem slots_scoped_without_stale_responses:
  assumes "scoped st" and "in_step st evs"
  shows "scoped (home_run st evs)
    \<and> home_step (home_run st evs) (Select d)
        = (home_run st evs)\<lparr>selectedDoctorId := Some d, loadingSlots := True, slots := []\<rparr>
    \<and> home_step (home_run st evs) (SlotsArrive a (Inr xs))
        = (home_run st evs)\<lparr>slots := xs, loadingSlots := False\<rparr>
    \<and> home_step (home_run st evs) (SlotsArrive a (Inl err))
        = (home_run st evs)\<lparr>slots := [], loadingSlots := False\<rparr>"
  using home_run_scoped [OF assms]
  by (simp add: handleSelectDoctor_start_def handleSelectDoctor_settle_def)

theorem slots_scoped_without_stale_responses_witness:
  "scoped initialUserHome
   \<and> in_step initialUserHome
       [Select 1,
        SlotsArrive 1 (Inr [\<lparr>slot_ident = 10, slot_doctor_id = 1,
                              start_time = ''2024-06-01T09:00:00Z'', duration_minutes = 30\<rparr>]),
        Select 2,
        SlotsArrive 2 (Inr [\<lparr>slot_ident = 20, slot_doctor_id = 2,
                              start_time = ''2024-06-01T10:00:00Z'', duration_minutes = 15\<rparr>])]
   \<and> scoped (home_run initialUserHome
       [Select 1,
        SlotsArrive 1 (Inr [\<lparr>slot_ident = 10, slot_doctor_id = 1,
                              start_time = ''2024-06-01T09:00:00Z'', duration_minutes = 30\<rparr>]),
        Select 2,
        SlotsArrive 2 (Inr [\<lparr>slot_ident = 20, slot_doctor_id = 2,
                              start_time = ''2024-06-01T10:00:00Z'', duration_minutes = 15\<rparr>])])
   \<and> slots (home_run initialUserHome
       [Select 1,
        SlotsArrive 1 (Inr [\<lparr>slot_ident = 10, slot_doctor_id = 1,
                              start_time = ''2024-06-01T09:00:00Z'', duration_minutes = 30\<rparr>]),
        Select 2,
        SlotsArrive 2 (Inr [\<lparr>slot_ident = 20, slot_doctor_id = 2,
                              start_time = ''2024-06-01T10:00:00Z'', duration_minutes = 15\<rparr>])])
       = [\<lparr>slot_ident = 20, slot_doctor_id = 2,
            start_time = ''2024-06-01T10:00:00Z'', duration_minutes = 15\<rparr>]"
proof -
  let ?evs = "[Select 1,
        SlotsArrive 1 (Inr [\<lparr>slot_ident = 10, slot_doctor_id = 1,
                              start_time = ''2024-06-01T09:00:00Z'', duration_minutes = 30\<rparr>]),
        Select 2,
        SlotsArrive 2 (Inr [\<lparr>slot_ident = 20, slot_doctor_id = 2,
                              start_time = ''2024-06-01T10:00:00Z'', duration_minutes = 15\<rparr>])]"
  have a: "scoped initialUserHome" by (simp add: scoped_def initialUserHome_def)
  have b: "in_step initialUserHome ?evs"
    by (simp add: initialUserHome_def handleSelectDoctor_start_def handleSelectDoctor_settle_def)
  have c: "slots (home_run initialUserHome ?evs)
       = [\<lparr>slot_ident = 20, slot_doctor_id = 2,
            start_time = ''2024-06-01T10:00:00Z'', duration_minutes = 15\<rparr>]"
    by (simp add: initialUserHome_def handleSelectDoctor_start_def handleSelectDoctor_settle_def)
  from slots_scoped_without_stale_responses [OF a b] a b c show ?thesis by blast
qed

subsection \<open>Calendar export\<close>

lemma digit_char_in: "digit_char d \<in> set ''0123456789''"
proof -
  have "d mod 10 < length ''0123456789''" by simp
  then show ?thesis unfolding digit_char_def by (rule nth_mem)
qed

lemma digits_in: "c \<in> set (digits n) \<Longrightarrow> c \<in> set ''0123456789''"
proof (induction n rule: digits.induct)
  case (1 n)
  show ?case
  proof (cases "n < 10")
    case True
    with "1.prems" show ?thesis using digit_char_in [of n] by (simp add: digits.simps [of n])
  next
    case False
    with "1.prems" have "c \<in> set (digits (n div 10)) \<or> c = digit_char (n mod 10)"
      by (auto simp: digits.simps [of n])
    then show ?thesis using "1.IH" False digit_char_in [of "n mod 10"] by blast
  qed
qed

lemma pad_in: "c \<in> set (pad w n) \<Longrightarrow> c \<in> set ''0123456789''"
  using digits_in [of c n] by (auto simp: pad_def)

lemma filter_pad: "filter (\<lambda>c. c \<noteq> CHR ''-'' \<and> c \<noteq> CHR '':'') (pad w n) = pad w n"
proof -
  have "\<forall>c\<in>set (pad w n). c \<noteq> CHR ''-'' \<and> c \<noteq> CHR '':''"
    using pad_in [of _ w n] by auto
  then show ?thesis by (simp add: filter_id_conv)
qed

lemma pad_no_dot: "c \<in> set (pad w n) \<Longrightarrow> c \<noteq> CHR ''.''"
  using pad_in [of c w n] by auto

text \<open>The year as formatDate leaves it.\<close>

lemma filter_year_text:
  "filter (\<lambda>c. c \<noteq> CHR ''-'' \<and> c \<noteq> CHR '':'') (year_text y)
     = (if 0 \<le> y \<and> y \<le> 9999 then pad 4 (nat y)
        else (if y < 0 then [] else ''+'') @ pad 6 (nat \<bar>y\<bar>))"
  by (simp add: year_text_def filter_pad)

lemma formatTime_fields:
  "formatTime t =
     (if 0 \<le> utc_year t \<and> utc_year t \<le> 9999 then pad 4 (nat (utc_year t))
      else (if utc_year t < 0 then [] else ''+'') @ pad 6 (nat \<bar>utc_year t\<bar>))
     @ pad 2 (utc_month t) @ pad 2 (utc_date t) @ ''T''
     @ pad 2 (utc_hours t) @ pad 2 (utc_minutes t) @ pad 2 (utc_seconds t) @ ''Z''"
proof -
  let ?Q = "\<lambda>c. c \<noteq> CHR ''-'' \<and> c \<noteq> CHR '':''"
  let ?P = "\<lambda>c. c \<noteq> CHR ''.''"
  let ?y = "(if 0 \<le> utc_year t \<and> utc_year t \<le> 9999 then pad 4 (nat (utc_year t))
      else (if utc_year t < 0 then [] else ''+'') @ pad 6 (nat \<bar>utc_year t\<bar>))"
  let ?body = "?y @ pad 2 (utc_month t) @ pad 2 (utc_date t) @ ''T''
     @ pad 2 (utc_hours t) @ pad 2 (utc_minutes t) @ pad 2 (utc_seconds t)"
  have f: "filter ?Q (toISOString t) = ?body @ ''.'' @ pad 3 (utc_milliseconds t) @ ''Z''"
    by (simp add: toISOString_def filter_pad filter_year_text)
  have b: "\<forall>c\<in>set ?body. ?P c"
    using pad_no_dot by auto
  have "takeWhile ?P (?body @ ''.'' @ pad 3 (utc_milliseconds t) @ ''Z'') = ?body @ takeWhile ?P (''.'' @ pad 3 (utc_milliseconds t) @ ''Z'')"
    using b by (intro takeWhile_append2) blast
  then have "takeWhile ?P (filter ?Q (toISOString t)) = ?body"
    using f by simp
  then show ?thesis by (simp add: formatTime_def)
qed

lemma formatTime_ics_utc:
  "0 \<le> utc_year t \<Longrightarrow> utc_year t \<le> 9999 \<Longrightarrow> formatTime t = ics_utc t"
  by (simp add: formatTime_fields ics_utc_def)

lemma formatTime_same_second:
  assumes "t div 1000 = u div 1000"
  shows "formatTime t = formatTime u"
proof -
  have d: "\<And>x::int. x div 86400000 = x div 1000 div 86400"
    and h: "\<And>x::int. x div 3600000 = x div 1000 div 3600"
    and m: "\<And>x::int. x div 60000 = x div 1000 div 60"
    by (simp_all add: zdiv_zmult2_eq [symmetric])
  have "utc_year t = utc_year u" "utc_month t = utc_month u" "utc_date t = utc_date u"
    "utc_hours t = utc_hours u" "utc_minutes t = utc_minutes u" "utc_seconds t = utc_seconds u"
    using assms
    by (simp_all add: utc_year_def utc_month_def utc_date_def utc_hours_def utc_minutes_def
          utc_seconds_def d h m)
  then show ?thesis by (simp add: formatTime_fields)
qed


lemma generateICS_payload:
  assumes "parse (start_time slot) = Some t"
    and "calendar_time t"
    and "calendar_time (t + duration_minutes slot * 60000)"
  shows "generateICS parse now bkg (Some slot) doctor =
     Some (join_lines
       [''BEGIN:VCALENDAR'',
        ''VERSION:2.0'',
        ''PRODID:-//MedReserve//Appointment//EN'',
        ''BEGIN:VEVENT'',
        ''UID:'' @ show_int (booking_ident bkg) @ ''@medreserve.com'',
        ''DTSTAMP:'' @ formatTime now,
        ''DTSTART:'' @ ics_utc t,
        ''DTEND:'' @ ics_utc (t + duration_minutes slot * 60000),
        ''SUMMARY:'' @ ''Appointment with ''
          @ (case doctor of None \<Rightarrow> ''Doctor''
             | Some d \<Rightarrow> if doctor_name d = [] then ''Doctor'' else doctor_name d),
        ''DESCRIPTION:'' @ ''Booking ID: '' @ show_int (booking_ident bkg) @ [CHR 0x0A]
          @ ''Patient: '' @ patient_name bkg,
        ''STATUS:CONFIRMED'',
        ''END:VEVENT'',
        ''END:VCALENDAR''])
     \<and> (t + duration_minutes slot * 60000) div 1000 = t div 1000 + duration_minutes slot * 60"
proof -
  let ?e = "t + duration_minutes slot * 60000"
  have s: "Date_of_string parse (start_time slot) = Some t"
    using assms(1,2) by (simp add: Date_of_string_def TimeClip_def calendar_time_def)
  have e: "Date_plus (Some t) (duration_minutes slot * 60000) = Some ?e"
    using assms(3) by (simp add: Date_plus_def TimeClip_def calendar_time_def)
  have fs: "formatDate (Some t) = Some (ics_utc t)"
    using assms(2) by (simp add: formatDate_def formatTime_ics_utc calendar_time_def)
  have fe: "formatDate (Some ?e) = Some (ics_utc ?e)"
    using assms(3) by (simp add: formatDate_def formatTime_ics_utc calendar_time_def)
  have fn: "formatDate (Some now) = Some (formatTime now)"
    by (simp add: formatDate_def)
  have 1: "generateICS parse now bkg (Some slot) doctor =
     Some (join_lines
       [''BEGIN:VCALENDAR'',
        ''VERSION:2.0'',
        ''PRODID:-//MedReserve//Appointment//EN'',
        ''BEGIN:VEVENT'',
        ''UID:'' @ show_int (booking_ident bkg) @ ''@medreserve.com'',
        ''DTSTAMP:'' @ formatTime now,
        ''DTSTART:'' @ ics_utc t,
        ''DTEND:'' @ ics_utc (t + duration_minutes slot * 60000),
        ''SUMMARY:'' @ ''Appointment with ''
          @ (case doctor of None \<Rightarrow> ''Doctor''
             | Some d \<Rightarrow> if doctor_name d = [] then ''Doctor'' else doctor_name d),
        ''DESCRIPTION:'' @ ''Booking ID: '' @ show_int (booking_ident bkg) @ [CHR 0x0A]
          @ ''Patient: '' @ patient_name bkg,
        ''STATUS:CONFIRMED'',
        ''END:VEVENT'',
        ''END:VCALENDAR''])"
    by (simp only: generateICS_def Let_def option.case s e fs fe fn append_assoc)
  have "duration_minutes slot * 60000 = (duration_minutes slot * 60) * 1000" by simp
  then have 2: "?e div 1000 = t div 1000 + duration_minutes slot * 60"
    by (simp only: div_mult_self3 [of 1000 t "duration_minutes slot * 60"])
  show ?thesis using 1 2 by blast
qed



text \<open>
  Claim C7, as stated, fails: \<open>generateICS\<close> reads the clock for \<open>DTSTAMP\<close>, so two calls
  with the same booking, slot and doctor made one second apart give different payloads.
\<close>

theorem generateICS_reads_clock_counterexample:
  "generateICS parse_utc_timestamp 1717000000123
        \<lparr>booking_ident = 99, booking_slot_id = 10, patient_name = ''Jane Doe'',
         patient_email = None, status = CONFIRMED\<rparr>
        (Some \<lparr>slot_ident = 10, slot_doctor_id = 1,
               start_time = ''2024-06-01T09:00:00Z'', duration_minutes = 30\<rparr>)
        (Some \<lparr>doctor_ident = 1, doctor_name = ''A. Smith'', doctor_specialization = None\<rparr>)
   \<noteq> generateICS parse_utc_timestamp 1717000001123
        \<lparr>booking_ident = 99, booking_slot_id = 10, patient_name = ''Jane Doe'',
         patient_email = None, status = CONFIRMED\<rparr>
        (Some \<lparr>slot_ident = 10, slot_doctor_id = 1,
               start_time = ''2024-06-01T09:00:00Z'', duration_minutes = 30\<rparr>)
        (Some \<lparr>doctor_ident = 1, doctor_name = ''A. Smith'', doctor_specialization = None\<rparr>)"
proof -
  let ?slot = "\<lparr>slot_ident = 10, slot_doctor_id = 1,
        start_time = ''2024-06-01T09:00:00Z'', duration_minutes = 30\<rparr>"
  let ?bkg = "\<lparr>booking_ident = 99, booking_slot_id = 10, patient_name = ''Jane Doe'',
         patient_email = None, status = CONFIRMED\<rparr>"
  let ?doc = "\<lparr>doctor_ident = 1, doctor_name = ''A. Smith'', doctor_specialization = None\<rparr>"
  have p: "parse_utc_timestamp (start_time ?slot) = Some 1717232400000" by code_simp
  have c1: "calendar_time 1717232400000" by code_simp
  have c2: "calendar_time (1717232400000 + duration_minutes ?slot * 60000)" by code_simp
  have s1: "formatTime 1717000000123 = ''20240529T162640Z''" by code_simp
  have s2: "formatTime 1717000001123 = ''20240529T162641Z''" by code_simp
  note a = generateICS_payload [of parse_utc_timestamp ?slot 1717232400000 1717000000123 ?bkg "Some ?doc",
        OF p c1 c2, THEN conjunct1]
  note b = generateICS_payload [of parse_utc_timestamp ?slot 1717232400000 1717000001123 ?bkg "Some ?doc",
        OF p c1 c2, THEN conjunct1]
  show ?thesis unfolding a b s1 s2 by simp
qed

lemma plus_half_hour_div: "(x + 1800000) div 1000 = x div 1000 + (1800::int)"
proof -
  have "x + 1800000 = x + 1800 * 1000" by simp
  then show ?thesis by (simp only: div_mult_self3 [of 1000 x 1800])
qed

text \<open>
  Claim C7, amended. The payload is a function of the booking, the slot, the doctor and the
  clock reading at the call, and of nothing else; the clock enters to the second only. Two calls
  with the same arguments whose clock readings fall in the same second give identical payloads
  (without a slot the event itself starts at the clock reading, which must then lie at least
  half an hour before the last time value a date can hold).
\<close>

theorem generateICS_same_second:
  assumes "now1 div 1000 = now2 div 1000"
    and "slot = None \<longrightarrow> \<bar>now1 + 1800000\<bar> \<le> 8640000000000000 \<and> \<bar>now2 + 1800000\<bar> \<le> 8640000000000000"
  shows "generateICS parse now1 bkg slot doctor = generateICS parse now2 bkg slot doctor"
proof (cases slot)
  case None
  have e: "(now1 + 1800000) div 1000 = (now2 + 1800000) div 1000"
    using assms(1) by (simp only: plus_half_hour_div)
  have 1: "Date_plus (Some now1) (30 * 60000) = Some (now1 + 1800000)"
    and 2: "Date_plus (Some now2) (30 * 60000) = Some (now2 + 1800000)"
    using assms(2) None by (simp_all add: Date_plus_def TimeClip_def)
  show ?thesis
    unfolding generateICS_def Let_def None option.case 1 2 formatDate_def
      formatTime_same_second [OF assms(1)] formatTime_same_second [OF e] ..
next
  case (Some s)
  show ?thesis
    unfolding generateICS_def Let_def Some option.case formatDate_def
      formatTime_same_second [OF assms(1)] ..
qed

theorem generateICS_same_second_witness:
  "(1717000000123::int) div 1000 = 1717000000999 div 1000
   \<and> generateICS parse_utc_timestamp 1717000000123
        \<lparr>booking_ident = 99, booking_slot_id = 10, patient_name = ''Jane Doe'',
         patient_email = None, status = CONFIRMED\<rparr>
        (Some \<lparr>slot_ident = 10, slot_doctor_id = 1,
               start_time = ''2024-06-01T09:00:00Z'', duration_minutes = 30\<rparr>)
        (Some \<lparr>doctor_ident = 1, doctor_name = ''A. Smith'', doctor_specialization = None\<rparr>)
     = generateICS parse_utc_timestamp 1717000000999
        \<lparr>booking_ident = 99, booking_slot_id = 10, patient_name = ''Jane Doe'',
         patient_email = None, status = CONFIRMED\<rparr>
        (Some \<lparr>slot_ident = 10, slot_doctor_id = 1,
               start_time = ''2024-06-01T09:00:00Z'', duration_minutes = 30\<rparr>)
        (Some \<lparr>doctor_ident = 1, doctor_name = ''A. Smith'', doctor_specialization = None\<rparr>)
   \<and> \<bar>(1717000000123::int) + 1800000\<bar> \<le> 8640000000000000
   \<and> \<bar>(1717000000999::int) + 1800000\<bar> \<le> 8640000000000000
   \<and> generateICS parse_utc_timestamp 1717000000123
        \<lparr>booking_ident = 99, booking_slot_id = 10, patient_name = ''Jane Doe'',
         patient_email = None, status = CONFIRMED\<rparr> None None
     = generateICS parse_utc_timestamp 1717000000999
        \<lparr>booking_ident = 99, booking_slot_id = 10, patient_name = ''Jane Doe'',
         patient_email = None, status = CONFIRMED\<rparr> None None"
proof -
  have d: "(1717000000123::int) div 1000 = 1717000000999 div 1000" by simp
  have r: "\<bar>(1717000000123::int) + 1800000\<bar> \<le> 8640000000000000
      \<and> \<bar>(1717000000999::int) + 1800000\<bar> \<le> 8640000000000000" by simp
  have n: "Some s \<noteq> None" for s :: AppointmentSlot by simp
  show ?thesis
    using generateICS_same_second [OF d, of "Some _" parse_utc_timestamp] 
      generateICS_same_second [OF d, of None parse_utc_timestamp] d r
    by blast
qed

subsection \<open>Toast notifications\<close>




































end
